theory Spec2Isabelle
  imports Complex_Main
begin

section \<open>Vectors and tensors\<close>

text \<open>
  The program computes on float32 tensors.  Numbers are modelled as mathematical reals, a
  row of a tensor as a list of reals and a two-dimensional tensor as a list of rows.  The
  losses of \<open>ELModel\<close> work on a batch (axis 0) and treat every row alike, so each of them
  is modelled on one row of the batch.
\<close>

type_synonym vec = "real list"

text \<open>Element-wise \<open>x - y\<close> and \<open>x + y\<close> of two rows of the same width.\<close>

definition vsub :: "vec \<Rightarrow> vec \<Rightarrow> vec" where
  "vsub x y = map2 (-) x y"

definition vadd :: "vec \<Rightarrow> vec \<Rightarrow> vec" where
  "vadd x y = map2 (+) x y"

text \<open>\<open>tf.norm(x, axis=1)\<close> and \<open>np.linalg.norm(x, axis=1)\<close> on one row: the Euclidean norm.\<close>

definition vnorm :: "vec \<Rightarrow> real" where
  "vnorm x = sqrt (\<Sum>v\<leftarrow>x. v * v)"

text \<open>\<open>tf.nn.relu\<close>.\<close>

definition relu :: "real \<Rightarrow> real" where
  "relu x = max x 0"

section \<open>The geometric embedding model (class ELModel)\<close>

record ELModel =
  cls_embeddings :: "vec list"
  rel_embeddings :: "vec list"
  margin :: real
  reg_norm :: real
  batch_size :: nat
  top_embed :: vec

text \<open>
  \<open>ELModel.__init__\<close>: the frozen top vector is \<open>np.zeros(embedding_size + 1)\<close> with its last
  entry set to \<open>1000000.0\<close>.  The two embedding tables are initialised by the framework and
  are parameters here; a class row has \<open>embedding_size + 1\<close> entries, a relation row
  \<open>embedding_size\<close>.
\<close>

definition make_top_embed :: "nat \<Rightarrow> vec" where
  "make_top_embed embedding_size = (replicate (embedding_size + 1) 0)[embedding_size := 1000000]"

definition ELModel_init :: "vec list \<Rightarrow> vec list \<Rightarrow> nat \<Rightarrow> nat \<Rightarrow> real \<Rightarrow> real \<Rightarrow> ELModel" where
  "ELModel_init cls rel embedding_size bs mg rn =
     \<lparr>cls_embeddings = cls, rel_embeddings = rel, margin = mg, reg_norm = rn,
      batch_size = bs, top_embed = make_top_embed embedding_size\<rparr>"

text \<open>\<open>ELModel.reg\<close>: \<open>tf.abs(tf.norm(x, axis=1) - self.reg_norm)\<close>.\<close>

definition reg :: "ELModel \<Rightarrow> vec \<Rightarrow> real" where
  "reg m x = \<bar>vnorm x - reg_norm m\<bar>"

text \<open>
  \<open>ELModel.loss\<close>.  \<open>c[:, -1]\<close> is the last entry of a row and \<open>c[:, 0:-1]\<close> the row without
  it; the source rebinds \<open>c\<close> and \<open>d\<close> to the centers after the radii are read.
\<close>

definition loss :: "ELModel \<Rightarrow> vec \<Rightarrow> vec \<Rightarrow> real" where
  "loss m c d =
     (let rc = \<bar>last c\<bar>;
          rd = \<bar>last d\<bar>;
          c = butlast c;
          d = butlast d;
          euc = vnorm (vsub c d);
          dst = relu (euc + rc - rd)
      in dst + reg m c + reg m d)"

text \<open>
  The embedding layers look a row up by its index.  The indices of a training example come
  from the class and relation index built by \<open>load_data\<close>, so they lie inside the tables.
\<close>

definition nf1_loss :: "ELModel \<Rightarrow> nat \<times> nat \<Rightarrow> real" where
  "nf1_loss m inp =
     (case inp of (c, d) \<Rightarrow>
        let c = cls_embeddings m ! c;
            d = cls_embeddings m ! d
        in loss m c d)"

definition nf2_loss :: "ELModel \<Rightarrow> nat \<times> nat \<times> nat \<Rightarrow> real" where
  "nf2_loss m inp =
     (case inp of (c, d, e) \<Rightarrow>
        let c = cls_embeddings m ! c;
            d = cls_embeddings m ! d;
            e = cls_embeddings m ! e;
            rc = \<bar>last c\<bar>;
            rd = \<bar>last d\<bar>;
            re = \<bar>last d\<bar>;
            sr = rc + rd;
            x1 = butlast c;
            x2 = butlast d;
            x3 = butlast e;
            x = vsub x2 x1;
            dst = vnorm x;
            dst2 = vnorm (vsub x3 x1);
            dst3 = vnorm (vsub x3 x2);
            rdst = relu (min rc rd - re);
            dst_loss = relu (dst - sr) + relu (dst2 - rc) + relu (dst3 - rd) + rdst - margin m
        in dst_loss + reg m x1 + reg m x2 + reg m x3)"

definition nf3_loss :: "ELModel \<Rightarrow> nat \<times> nat \<times> nat \<Rightarrow> real" where
  "nf3_loss m inp =
     (case inp of (c, r, d) \<Rightarrow>
        let c = cls_embeddings m ! c;
            d = cls_embeddings m ! d;
            r = rel_embeddings m ! r;
            rd = r @ [0];
            c = vadd c rd
        in loss m c d)"

definition nf4_loss :: "ELModel \<Rightarrow> nat \<times> nat \<times> nat \<Rightarrow> real" where
  "nf4_loss m inp =
     (case inp of (r, c, d) \<Rightarrow>
        let c = cls_embeddings m ! c;
            d = cls_embeddings m ! d;
            r = rel_embeddings m ! r;
            rr = r @ [0];
            c = vsub c rr;
            rc = \<bar>last c\<bar>;
            rd = \<bar>last d\<bar>;
            sr = rc + rd;
            x1 = butlast c;
            x2 = butlast d;
            x = vsub x2 x1;
            dst = vnorm x;
            dst_loss = relu (dst - sr - margin m)
        in dst_loss + reg m x1 + reg m x2)"

text \<open>
  \<open>ELModel.dis_loss\<close>.  A disjointness example is stored as the triple \<open>(c, d, e)\<close> of the
  axiom, \<open>e\<close> being the bottom concept; the loss reads columns 0 and 1 only.
\<close>

definition dis_loss :: "ELModel \<Rightarrow> nat \<times> nat \<times> nat \<Rightarrow> real" where
  "dis_loss m inp =
     (case inp of (c, d, e) \<Rightarrow>
        let c = cls_embeddings m ! c;
            d = cls_embeddings m ! d;
            rc = \<bar>last c\<bar>;
            rd = \<bar>last d\<bar>;
            sr = rc + rd;
            x1 = butlast c;
            x2 = butlast d;
            x = vsub x2 x1;
            dst = vnorm x
        in relu (sr - dst + margin m) + reg m x1 + reg m x2)"

text \<open>\<open>ELModel.call\<close> on one position of the batch: the five losses added up.\<close>

definition call :: "ELModel \<Rightarrow> (nat \<times> nat) \<times> (nat \<times> nat \<times> nat) \<times> (nat \<times> nat \<times> nat)
    \<times> (nat \<times> nat \<times> nat) \<times> (nat \<times> nat \<times> nat) \<Rightarrow> real" where
  "call m inp =
     (case inp of (nf1, nf2, nf3, nf4, dis) \<Rightarrow>
        let loss1 = nf1_loss m nf1;
            loss2 = nf2_loss m nf2;
            loss3 = nf3_loss m nf3;
            loss4 = nf4_loss m nf4;
            loss_dis = dis_loss m dis
        in loss1 + loss2 + loss3 + loss4 + loss_dis)"

section \<open>The validation and checkpoint callback (class MyModelCheckpoint)\<close>

text \<open>
  The value of \<open>logs['loss']\<close> is a Python float: a number, an infinity or NaN.
\<close>

datatype pyfloat = Finite real | PosInf | NegInf | NaN

text \<open>\<open>math.isnan\<close>.\<close>

fun math_isnan :: "pyfloat \<Rightarrow> bool" where
  "math_isnan NaN = True"
| "math_isnan (Finite x) = False"
| "math_isnan PosInf = False"
| "math_isnan NegInf = False"

datatype error = KeyError nat | ZeroDivisionError

text \<open>The lines the callback prints; \<open>Validation\<close> and \<open>Saving_embeddings\<close> carry
  \<open>epoch + 1\<close> and the mean rank.\<close>

datatype message =
    NAN_loss_stopping_training
  | Validation nat real
  | Saving_embeddings nat real

text \<open>A pickled data frame: the column of identifiers and the column of embedding rows.\<close>

type_synonym dataframe = "string list \<times> vec list"

record MyModelCheckpoint =
  out_classes_file :: string
  out_relations_file :: string
  cls_list :: "string list"
  rel_list :: "string list"
  valid_data :: "(nat \<times> nat \<times> nat) list"
  prot_index :: "nat list"
  top_c :: "nat option"
  best_rank :: real

text \<open>
  \<open>MyModelCheckpoint.__init__\<close>.  \<open>proteins\<close> is the dictionary from identifier to class
  index in insertion order, \<open>prot_index\<close> the list of its values, and \<open>top_c\<close> is
  \<open>self.top\<close>: \<open>None\<close> or the class index of the top concept.
\<close>

definition MyModelCheckpoint_init ::
  "string \<Rightarrow> string \<Rightarrow> string list \<Rightarrow> string list \<Rightarrow> (nat \<times> nat \<times> nat) list
     \<Rightarrow> (string \<times> nat) list \<Rightarrow> nat option \<Rightarrow> MyModelCheckpoint" where
  "MyModelCheckpoint_init ocf orf cl rl vd proteins tp =
     \<lparr>out_classes_file = ocf, out_relations_file = orf, cls_list = cl, rel_list = rl,
      valid_data = vd, prot_index = map snd proteins, top_c = tp, best_rank = 100000\<rparr>"

text \<open>
  \<open>self.prot_dict = {v: k for k, v in enumerate(self.prot_index)}\<close>: from a class index to
  its position in \<open>prot_index\<close>; a later entry of a dictionary comprehension replaces an
  earlier one with the same key.
\<close>

definition prot_dict :: "nat list \<Rightarrow> nat \<Rightarrow> nat option" where
  "prot_dict pidx = map_of (rev (zip pidx [0..<length pidx]))"

text \<open>
  What the callback reads and writes: itself, the model (\<open>self.model.layers[-1]\<close>), the
  flag \<open>self.model.stop_training\<close>, the files written with \<open>to_pickle\<close> (each call recorded
  with its path, the latest last), the printed lines, and the number of training steps run.
\<close>

record session =
  checkpointer :: MyModelCheckpoint
  el_model :: ELModel
  stop_training :: bool
  pickles :: "(string \<times> dataframe) list"
  stdout :: "message list"
  steps_run :: nat

text \<open>
  \<open>on_batch_begin\<close>.  The guard is \<open>if self.top:\<close>, Python's truth value of \<open>self.top\<close>:
  false for \<open>None\<close> and for the integer 0, true for every other index.  The assignment
  overwrites row \<open>self.top\<close> of the class table with \<open>top_embed\<close>.
\<close>

definition on_batch_begin :: "session \<Rightarrow> session" where
  "on_batch_begin s =
     (case top_c (checkpointer s) of
        None \<Rightarrow> s
      | Some t \<Rightarrow>
          if t \<noteq> 0
          then s\<lparr>el_model := (el_model s)\<lparr>cls_embeddings :=
                  (cls_embeddings (el_model s))[t := top_embed (el_model s)]\<rparr>\<rparr>
          else s)"

text \<open>
  \<open>scipy.stats.rankdata(a, method='average')\<close>: an entry's rank is the mean of the
  positions its ties take in the sorted order, counted from 1.
\<close>

definition rankdata_average :: "real list \<Rightarrow> real list" where
  "rankdata_average a =
     map (\<lambda>x. real (length (filter (\<lambda>y. y < x) a))
              + (real (length (filter (\<lambda>y. y = x) a)) + 1) / 2) a"

text \<open>
  The score of one candidate protein: the entry of \<open>res\<close> for a candidate at distance \<open>dst\<close>
  with radius entry \<open>prs\<close>, for the query radius entry \<open>rc\<close> and the margin \<open>mg\<close>
  (lines 370 to 376, element-wise).
\<close>

definition candidate_score :: "real \<Rightarrow> real \<Rightarrow> real \<Rightarrow> real \<Rightarrow> real" where
  "candidate_score mg rc dst prs =
     (let overlap = (if rc > 0
                     then max 0 ((2 * rc - max (dst + rc - prs - mg) 0) / (2 * rc))
                     else (if max (dst - prs - mg) 0 = 0 then 1 else 0));
          edst = max 0 (dst - rc - prs - mg);
          res = (overlap + 1 / exp edst) / 2
      in res)"

text \<open>
  The body of the loop over the triples, after the dictionary lookups (lines 363 to 379 of
  \<open>elembedding.py\<close>; lines 139 to 156 of \<open>evaluate_interactions.py\<close> are the same
  statements).  \<open>ec = prot_embeds[c, :]\<close> is a view of row \<open>c\<close>, so \<open>ec += er\<close> writes the
  translated row back into \<open>prot_embeds\<close>: the matrix is returned with the rank.
\<close>

definition score_triple ::
  "real \<Rightarrow> vec list \<Rightarrow> real list \<Rightarrow> vec list \<Rightarrow> nat \<times> nat \<times> nat \<Rightarrow> vec list \<times> real" where
  "score_triple mg rels prot_rs prot_embeds t =
     (case t of (c, r, d) \<Rightarrow>
        let ec = prot_embeds ! c;
            rc = prot_rs ! c;
            er = rels ! r;
            ec = vadd ec er;
            prot_embeds = prot_embeds[c := ec];
            dst = map (\<lambda>p. vnorm (vsub p ec)) prot_embeds;
            res = map2 (candidate_score mg rc) dst prot_rs;
            index = rankdata_average (map uminus res);
            rank = index ! d
        in (prot_embeds, rank))"

text \<open>
  The loop \<open>for c, r, d in self.valid_data\<close>, with the matrix and the running sum
  \<open>mean_rank\<close> as its state.  \<open>self.prot_dict[c]\<close> raises \<open>KeyError\<close> for a class that is
  not a protein.
\<close>

fun validation_loop ::
  "real \<Rightarrow> vec list \<Rightarrow> real list \<Rightarrow> (nat \<Rightarrow> nat option) \<Rightarrow> vec list \<Rightarrow> real
     \<Rightarrow> (nat \<times> nat \<times> nat) list \<Rightarrow> error + vec list \<times> real" where
  "validation_loop mg rels prot_rs pd prot_embeds mean_rank [] = Inr (prot_embeds, mean_rank)"
| "validation_loop mg rels prot_rs pd prot_embeds mean_rank ((c, r, d) # rest) =
     (case pd c of
        None \<Rightarrow> Inl (KeyError c)
      | Some c' \<Rightarrow>
          (case pd d of
             None \<Rightarrow> Inl (KeyError d)
           | Some d' \<Rightarrow>
               (case score_triple mg rels prot_rs prot_embeds (c', r, d') of
                  (prot_embeds', rank) \<Rightarrow>
                    validation_loop mg rels prot_rs pd prot_embeds' (mean_rank + rank) rest)))"

text \<open>
  Lines 350 to 386 of \<open>on_epoch_end\<close>: the protein rows are copied out of the class table
  (indexing with a list copies), split into the raw last column \<open>prot_rs\<close> and the centers,
  and the ranks of all triples are averaged.
\<close>

definition validation_mean_rank :: "MyModelCheckpoint \<Rightarrow> ELModel \<Rightarrow> error + real" where
  "validation_mean_rank self m =
     (let prot_embeds = map (\<lambda>i. cls_embeddings m ! i) (prot_index self);
          prot_rs = map last prot_embeds;
          prot_embeds = map butlast prot_embeds;
          n = length (valid_data self)
      in case validation_loop (margin m) (rel_embeddings m) prot_rs
                (prot_dict (prot_index self)) prot_embeds 0 (valid_data self) of
           Inl e \<Rightarrow> Inl e
         | Inr (prot_embeds', mean_rank) \<Rightarrow> Inr (mean_rank / real n))"

text \<open>\<open>on_epoch_end\<close>, given the epoch and the value of \<open>logs.get(self.monitor)\<close>.\<close>

definition on_epoch_end :: "session \<Rightarrow> nat \<Rightarrow> pyfloat \<Rightarrow> error + session" where
  "on_epoch_end s epoch current_loss =
     (if math_isnan current_loss
      then Inr (s\<lparr>stdout := stdout s @ [NAN_loss_stopping_training], stop_training := True\<rparr>)
      else if length (valid_data (checkpointer s)) = 0
      then Inr s
      else
        (case validation_mean_rank (checkpointer s) (el_model s) of
           Inl e \<Rightarrow> Inl e
         | Inr mean_rank \<Rightarrow>
             let s = s\<lparr>stdout := stdout s @ [Validation (epoch + 1) mean_rank]\<rparr>
             in if mean_rank < best_rank (checkpointer s)
                then
                  let self = checkpointer s;
                      m = el_model s
                  in Inr (s\<lparr>checkpointer := self\<lparr>best_rank := mean_rank\<rparr>,
                            stdout := stdout s @ [Saving_embeddings (epoch + 1) mean_rank],
                            pickles := pickles s
                              @ [(out_classes_file self, (cls_list self, cls_embeddings m)),
                                 (out_relations_file self, (rel_list self, rel_embeddings m))]\<rparr>)
                else Inr s))"

subsection \<open>The test evaluation (evaluate\_interactions.py)\<close>

text \<open>
  Lines 92 to 99 and 128 to 177 of \<open>main\<close> in \<open>evaluate_interactions.py\<close>, for the mean
  rank: the radii are \<open>np.abs(embeds[:, -1])\<close>, the loop body is the one of the callback,
  and the sum of the ranks is divided by the number of test triples (division by the
  integer 0 raises).  The triples are given by their class and relation indices.
\<close>

definition evaluate_mean_rank ::
  "real \<Rightarrow> vec list \<Rightarrow> vec list \<Rightarrow> nat list \<Rightarrow> (nat \<times> nat \<times> nat) list \<Rightarrow> error + real" where
  "evaluate_mean_rank mg embeds rembeds pidx test_data =
     (let rs = map (\<lambda>e. \<bar>last e\<bar>) embeds;
          embeds = map butlast embeds;
          prot_rs = map (\<lambda>i. rs ! i) pidx;
          prot_embeds = map (\<lambda>i. embeds ! i) pidx;
          n = length test_data
      in case validation_loop mg rembeds prot_rs (prot_dict pidx) prot_embeds 0 test_data of
           Inl e \<Rightarrow> Inl e
         | Inr (prot_embeds', mean_rank) \<Rightarrow>
             if n = 0 then Inl ZeroDivisionError else Inr (mean_rank / real n))"

subsection \<open>The training loop around the callback\<close>

text \<open>
  The loop of \<open>fit_generator\<close> belongs to the framework.  Of it the model keeps the order
  of the calls: a step runs \<open>on_batch_begin\<close>, then the forward pass \<open>call\<close> on the
  batch, then the optimiser's update; an epoch runs its steps and then \<open>on_epoch_end\<close>
  with the logged loss; no epoch starts once \<open>stop_training\<close> is set.  The optimiser
  \<open>opt\<close> and the logged loss \<open>logged\<close> are parameters.
\<close>

type_synonym batch_row =
  "(nat \<times> nat) \<times> (nat \<times> nat \<times> nat) \<times> (nat \<times> nat \<times> nat) \<times> (nat \<times> nat \<times> nat) \<times> (nat \<times> nat \<times> nat)"

definition train_step ::
  "(ELModel \<Rightarrow> batch_row list \<Rightarrow> real list \<Rightarrow> ELModel) \<Rightarrow> session \<Rightarrow> batch_row list \<Rightarrow> session" where
  "train_step opt s batch =
     (let s = on_batch_begin s;
          out = map (call (el_model s)) batch
      in s\<lparr>el_model := opt (el_model s) batch out, steps_run := steps_run s + 1\<rparr>)"

fun fit_generator ::
  "(ELModel \<Rightarrow> batch_row list \<Rightarrow> real list \<Rightarrow> ELModel) \<Rightarrow> (session \<Rightarrow> pyfloat)
     \<Rightarrow> session \<Rightarrow> (batch_row list list) list \<Rightarrow> nat \<Rightarrow> error + session" where
  "fit_generator opt logged s [] epoch = Inr s"
| "fit_generator opt logged s (steps # epochs) epoch =
     (if stop_training s then Inr s
      else
        let s = foldl (train_step opt) s steps
        in case on_epoch_end s epoch (logged s) of
             Inl e \<Rightarrow> Inl e
           | Inr s' \<Rightarrow> fit_generator opt logged s' epochs (epoch + 1))"

section \<open>The parameter array index (function main)\<close>

definition orgs :: "string list" where
  "orgs = [''human'', ''yeast'']"

definition sizes :: "int list" where
  "sizes = [50, 100, 200, 400]"

definition margins :: "real list" where
  "margins = [- (1 / 10), - (1 / 100), 0, 1 / 100, 1 / 10]"

definition reg_norms :: "real list" where
  "reg_norms = [1]"

text \<open>
  Lines 72 to 84 of \<open>main\<close> (and lines 51 to 64 of \<open>evaluate_interactions.py\<close>, which are
  the same statements): \<open>None\<close> when the index is \<open>-1\<close> and the options keep their
  values, otherwise the organism, embedding size, margin and regularisation norm.  Python's
  \<open>%\<close> and \<open>//\<close> on integers round to minus infinity, as \<open>mod\<close> and \<open>div\<close> do on
  \<open>int\<close>; a remainder by a positive number is a valid list index.
\<close>

definition main_params :: "int \<Rightarrow> (string \<times> int \<times> real \<times> real) option" where
  "main_params params_array_index =
     (if params_array_index \<noteq> - 1
      then
        let reg_norm = reg_norms ! 0;
            margin = margins ! nat (params_array_index mod 5);
            params_array_index = params_array_index div 5;
            embedding_size = sizes ! nat (params_array_index mod 4);
            params_array_index = params_array_index div 4;
            org = orgs ! nat (params_array_index mod 2)
        in Some (org, embedding_size, margin, reg_norm)
      else None)"

section \<open>The class index (function load\_data)\<close>

text \<open>
  \<open>load_data\<close> gives every identifier it meets the next free index:
  \<open>if c not in classes: classes[c] = len(classes)\<close>.  The dictionary is a list of pairs in
  insertion order; \<open>classes.get(k, None)\<close> is a lookup in it.
\<close>

definition register :: "(string \<times> nat) list \<Rightarrow> string \<Rightarrow> (string \<times> nat) list" where
  "register classes c =
     (if map_of classes c = None then classes @ [(c, length classes)] else classes)"

text \<open>
  The fallback branch of \<open>load_data\<close> for a line \<open>SubClassOf(C D)\<close>, given the two tokens:
  both identifiers are registered, \<open>C\<close> first.
\<close>

definition load_nf1 :: "(string \<times> nat) list \<Rightarrow> string \<Rightarrow> string \<Rightarrow> (string \<times> nat) list" where
  "load_nf1 classes c d = register (register classes c) d"

text \<open>\<open>top = classes.get('owl:Thing', None)\<close> in \<open>main\<close>.\<close>

definition main_top :: "(string \<times> nat) list \<Rightarrow> nat option" where
  "main_top classes = map_of classes ''owl:Thing''"

text \<open>\<open>str.startswith\<close>.\<close>

definition startswith :: "string \<Rightarrow> string \<Rightarrow> bool" where
  "startswith s p = (take (length p) s = p)"

text \<open>
  Lines 96 to 99 of \<open>main\<close> (88 to 91 of \<open>evaluate_interactions.py\<close>): the proteins are
  the classes whose identifier does not start with the prefix of the ontology namespace.
\<close>

definition main_proteins :: "(string \<times> nat) list \<Rightarrow> (string \<times> nat) list" where
  "main_proteins classes =
     filter (\<lambda>(k, v). \<not> startswith k ''<http://purl.obolibrary.org/obo/GO_'') classes"

subsection \<open>The vocabulary of the specification\<close>

text \<open>
  A ball embedding is a class row: its radius is the absolute value of the last coordinate,
  its center the remaining coordinates.
\<close>

definition radius :: "vec \<Rightarrow> real" where
  "radius v = \<bar>last v\<bar>"

definition center :: "vec \<Rightarrow> vec" where
  "center v = butlast v"

definition distance :: "vec \<Rightarrow> vec \<Rightarrow> real" where
  "distance x y = vnorm (vsub x y)"

text \<open>
  The NF2 formula in the words of the specification, for the rows \<open>c\<close>, \<open>d\<close> and \<open>e\<close> of
  the three classes: four relu terms and the regularisation of the three centers, with the
  margin inside terms (a) and (d) and the radius of \<open>d\<close> standing for that of \<open>e\<close> in (d).
\<close>

definition nf2_formula_spec :: "ELModel \<Rightarrow> vec \<Rightarrow> vec \<Rightarrow> vec \<Rightarrow> real" where
  "nf2_formula_spec m c d e =
     relu (distance (center c) (center d) - (radius c + radius d - margin m))
     + relu (distance (center e) (center c) - radius c)
     + relu (distance (center e) (center d) - radius d)
     + relu (min (radius c) (radius d) - radius d - margin m)
     + reg m (center c) + reg m (center d) + reg m (center e)"


section \<open>Concrete inputs\<close>

text \<open>
  Models with one-dimensional centers (\<open>embedding_size = 1\<close>), the default margin \<open>0.01\<close>
  and the default regularisation norm 1.
\<close>

definition loss_example :: ELModel where
  "loss_example =
     \<lparr>cls_embeddings = [[3, 0], [0, 0]], rel_embeddings = [], margin = 1 / 100,
      reg_norm = 1, batch_size = 1, top_embed = make_top_embed 1\<rparr>"

definition nf2_example :: ELModel where
  "nf2_example =
     \<lparr>cls_embeddings = [[1, 1], [1, 1], [1, 1]], rel_embeddings = [], margin = 1 / 100,
      reg_norm = 1, batch_size = 1, top_embed = make_top_embed 1\<rparr>"

definition dis_example :: ELModel where
  "dis_example =
     \<lparr>cls_embeddings = [[1, 1], [3, 1], [0, 0]], rel_embeddings = [], margin = 1 / 100,
      reg_norm = 1, batch_size = 1, top_embed = make_top_embed 1\<rparr>"

text \<open>The stored row of a class with the sign of its radius coordinate changed.\<close>

definition negate_radius :: "vec \<Rightarrow> vec" where
  "negate_radius v = butlast v @ [- last v]"

text \<open>
  Three proteins with centers 0, \<open>1/2\<close> and 1 and radius entries 1, 0 and 0, one relation
  with the vector \<open>1/2\<close>, margin 0, and the validation triple \<open>(0, 0, 1)\<close> listed twice.
\<close>

definition ppi_model :: ELModel where
  "ppi_model =
     \<lparr>cls_embeddings = [[0, 1], [1 / 2, 0], [1, 0]], rel_embeddings = [[1 / 2]], margin = 0,
      reg_norm = 1, batch_size = 1, top_embed = make_top_embed 1\<rparr>"

definition ppi_classes :: "(string \<times> nat) list" where
  "ppi_classes = [(''<http://p0>'', 0), (''<http://p1>'', 1), (''<http://p2>'', 2)]"

definition ppi_checkpointer :: MyModelCheckpoint where
  "ppi_checkpointer =
     MyModelCheckpoint_init ''cls.pkl'' ''rel.pkl''
       [''<http://p0>'', ''<http://p1>'', ''<http://p2>''] [''<http://r0>'']
       [(0, 0, 1), (0, 0, 1)] (main_proteins ppi_classes) (main_top ppi_classes)"

definition ppi_session :: session where
  "ppi_session =
     \<lparr>checkpointer = ppi_checkpointer, el_model = ppi_model, stop_training = False,
      pickles = [], stdout = [], steps_run = 0\<rparr>"

text \<open>
  Two proteins with the same center and radius entry 1, a zero relation vector, margin 0
  and the validation triple \<open>(0, 0, 1)\<close>.
\<close>

definition sign_model :: ELModel where
  "sign_model =
     \<lparr>cls_embeddings = [[0, 1], [0, 1]], rel_embeddings = [[0]], margin = 0,
      reg_norm = 1, batch_size = 1, top_embed = make_top_embed 1\<rparr>"

definition sign_classes :: "(string \<times> nat) list" where
  "sign_classes = [(''<http://p0>'', 0), (''<http://p1>'', 1)]"

definition sign_checkpointer :: MyModelCheckpoint where
  "sign_checkpointer =
     MyModelCheckpoint_init ''cls.pkl'' ''rel.pkl'' [''<http://p0>'', ''<http://p1>'']
       [''<http://r0>''] [(0, 0, 1)] (main_proteins sign_classes) (main_top sign_classes)"

text \<open>
  A training file whose first line is \<open>SubClassOf(owl:Thing <A>)\<close>: the top concept is
  the first identifier met.
\<close>

definition top_first_classes :: "(string \<times> nat) list" where
  "top_first_classes = load_nf1 [] ''owl:Thing'' ''<A>''"

definition top_first_session :: session where
  "top_first_session =
     \<lparr>checkpointer = MyModelCheckpoint_init ''cls.pkl'' ''rel.pkl'' [''owl:Thing'', ''<A>'']
        [] [] (main_proteins top_first_classes) (main_top top_first_classes),
      el_model = ELModel_init [[1 / 2, 1 / 4], [1 / 3, 1 / 5]] [] 1 1 (1 / 100) 1,
      stop_training = False, pickles = [], stdout = [], steps_run = 0\<rparr>"

section \<open>Properties\<close>

lemma vnorm_nonneg: "0 \<le> vnorm x"
proof -
  have "0 \<le> (\<Sum>v\<leftarrow>x. v * v)"
    by (induction x) simp_all
  then show ?thesis
    by (simp add: vnorm_def)
qed

lemma vnorm_single: "vnorm [a] = \<bar>a\<bar>"
  by (simp add: vnorm_def)

lemma vnorm_Nil: "vnorm [] = 0"
  by (simp add: vnorm_def)

lemma relu_zero_iff: "relu x = 0 \<longleftrightarrow> x \<le> 0"
  by (auto simp: relu_def max_def)

lemma relu_nonneg: "0 \<le> relu x"
  by (simp add: relu_def)

lemma loss_unfold:
  "loss m c d = relu (distance (center c) (center d) + radius c - radius d)
                + reg m (center c) + reg m (center d)"
  by (simp add: loss_def Let_def radius_def center_def distance_def)

text \<open>
  C2.  The containment loss of two ball embeddings is
  \<open>relu (distance + radius c - radius d)\<close> plus the two regularisation terms
  \<open>\<bar>norm of the center - reg_norm\<bar>\<close>.  What is left of the loss without the regularisation
  terms is zero exactly when \<open>distance + radius c \<le> radius d\<close>, and for two balls of radius
  zero the loss is the distance of the centers plus the two regularisation terms.
\<close>

theorem loss_containment:
  "loss m c d = relu (vnorm (vsub (center c) (center d)) + radius c - radius d)
                + \<bar>vnorm (center c) - reg_norm m\<bar> + \<bar>vnorm (center d) - reg_norm m\<bar>
   \<and> (loss m c d - reg m (center c) - reg m (center d) = 0
        \<longleftrightarrow> vnorm (vsub (center c) (center d)) + radius c \<le> radius d)
   \<and> (radius c = 0 \<and> radius d = 0 \<longrightarrow>
        loss m c d = vnorm (vsub (center c) (center d))
                     + \<bar>vnorm (center c) - reg_norm m\<bar> + \<bar>vnorm (center d) - reg_norm m\<bar>)"
proof (intro conjI impI)
  show "loss m c d = relu (vnorm (vsub (center c) (center d)) + radius c - radius d)
                + \<bar>vnorm (center c) - reg_norm m\<bar> + \<bar>vnorm (center d) - reg_norm m\<bar>"
    by (simp add: loss_unfold distance_def reg_def)
next
  have "loss m c d - reg m (center c) - reg m (center d)
        = relu (vnorm (vsub (center c) (center d)) + radius c - radius d)"
    by (simp add: loss_unfold distance_def)
  then show "loss m c d - reg m (center c) - reg m (center d) = 0
        \<longleftrightarrow> vnorm (vsub (center c) (center d)) + radius c \<le> radius d"
    by (simp add: relu_zero_iff)
next
  assume r0: "radius c = 0 \<and> radius d = 0"
  have "relu (vnorm (vsub (center c) (center d))) = vnorm (vsub (center c) (center d))"
    using vnorm_nonneg [of "vsub (center c) (center d)"] by (simp add: relu_def)
  with r0 show "loss m c d = vnorm (vsub (center c) (center d))
                     + \<bar>vnorm (center c) - reg_norm m\<bar> + \<bar>vnorm (center d) - reg_norm m\<bar>"
    by (simp add: loss_unfold distance_def reg_def)
qed

theorem loss_containment_witness:
  "radius [3, 0] = 0 \<and> radius [0, 0] = 0 \<and> loss loss_example [3, 0] [0, 0] = 6"
  using loss_containment [of loss_example "[3, 0]" "[0, 0]"]
  by (simp add: radius_def center_def vsub_def vnorm_single loss_example_def)

subsection \<open>The NF2 loss\<close>

lemma relu_min_self: "relu (min a b - b) = 0"
  by (simp add: relu_def)

lemma nf2_loss_closed_form:
  "nf2_loss m (c, d, e) =
     (let C = cls_embeddings m ! c; D = cls_embeddings m ! d; E = cls_embeddings m ! e
      in relu (distance (center D) (center C) - (radius C + radius D))
         + relu (distance (center E) (center C) - radius C)
         + relu (distance (center E) (center D) - radius D)
         - margin m
         + reg m (center C) + reg m (center D) + reg m (center E))"
  by (simp add: nf2_loss_def Let_def relu_min_self distance_def center_def radius_def)

lemma nf2_formula_spec_nonneg: "0 \<le> nf2_formula_spec m c d e"
proof -
  have "0 \<le> reg m x" for x
    by (simp add: reg_def)
  then show ?thesis
    unfolding nf2_formula_spec_def by (intro add_nonneg_nonneg relu_nonneg)
qed

text \<open>
  C1.  The NF2 loss subtracts the margin once from the sum of the relu terms, outside
  every relu: for three classes with the row \<open>[1, 1]\<close>, margin \<open>0.01\<close> and regularisation
  norm 1 the loss is \<open>-0.01\<close>, where the formula of the specification, a sum of relu terms
  and regularisation terms, is 0.
\<close>

theorem nf2_loss_subtracts_margin_outside:
  "nf2_loss nf2_example (0, 1, 2) = - (1 / 100)
   \<and> nf2_formula_spec nf2_example (cls_embeddings nf2_example ! 0)
        (cls_embeddings nf2_example ! 1) (cls_embeddings nf2_example ! 2) = 0"
  by (simp add: nf2_loss_def nf2_formula_spec_def nf2_example_def Let_def vsub_def vnorm_Nil
      vnorm_single relu_def reg_def distance_def center_def radius_def)

subsection \<open>The disjointness loss\<close>

lemma vsub_sq_commute:
  "(\<Sum>v\<leftarrow>map2 (-) x y. v * v) = (\<Sum>v\<leftarrow>map2 (-) y x. v * (v::real))"
proof (induction x arbitrary: y)
  case Nil
  then show ?case by simp
next
  case (Cons a x)
  show ?case
  proof (cases y)
    case Nil
    then show ?thesis by simp
  next
    case (Cons b y')
    have "(a - b) * (a - b) = (b - a) * (b - a)"
      by (simp add: algebra_simps)
    with Cons Cons.IH [of y'] show ?thesis by simp
  qed
qed

lemma vnorm_vsub_commute: "vnorm (vsub x y) = vnorm (vsub y x)"
  unfolding vnorm_def vsub_def by (rule arg_cong [OF vsub_sq_commute])

lemma distance_commute: "distance x y = distance y x"
  by (simp add: distance_def vnorm_vsub_commute)

text \<open>
  C5 (as amended).  The disjointness loss without its two regularisation terms is zero
  exactly when the distance of the centers is at least
  \<open>radius c + radius d + margin\<close>.
\<close>

theorem dis_loss_zero_iff:
  "dis_loss m (c, d, e) - reg m (center (cls_embeddings m ! c))
       - reg m (center (cls_embeddings m ! d)) = 0
   \<longleftrightarrow> distance (center (cls_embeddings m ! c)) (center (cls_embeddings m ! d))
        \<ge> radius (cls_embeddings m ! c) + radius (cls_embeddings m ! d) + margin m"
  by (auto simp: dis_loss_def Let_def center_def radius_def distance_def relu_zero_iff
      vnorm_vsub_commute [of "butlast (cls_embeddings m ! d)"])

text \<open>
  With \<open>- margin\<close> in place of \<open>+ margin\<close> the equivalence fails: for balls of radius 1
  with centers 2 apart and margin \<open>0.01\<close> the distance is at least \<open>1 + 1 - 0.01\<close>, and the
  violation is \<open>0.01\<close>.
\<close>

theorem dis_loss_minus_margin_counterexample:
  "\<not> (dis_loss dis_example (0, 1, 2) - reg dis_example (center (cls_embeddings dis_example ! 0))
        - reg dis_example (center (cls_embeddings dis_example ! 1)) = 0
      \<longleftrightarrow> distance (center (cls_embeddings dis_example ! 0)) (center (cls_embeddings dis_example ! 1))
        \<ge> radius (cls_embeddings dis_example ! 0) + radius (cls_embeddings dis_example ! 1)
            - margin dis_example)"
  by (simp add: dis_loss_def Let_def center_def radius_def distance_def dis_example_def
      vsub_def vnorm_single relu_def reg_def)

subsection \<open>The candidate score\<close>














subsection \<open>The parameter array index\<close>

lemma div_5_div_4: "(i::int) div 5 div 4 = i div 20"
  using zdiv_zmult2_eq [of 4 i 5] by simp

text \<open>
  C10.  For a non-negative parameter array index \<open>i\<close> the margin is \<open>margins[i mod 5]\<close>,
  the embedding size \<open>sizes[(i div 5) mod 4]\<close> and the organism \<open>orgs[(i div 20) mod 2]\<close>;
  index 0 gives margin \<open>-0.1\<close>, size 50 and \<open>orgs[0]\<close>, index 5 gives margin \<open>-0.1\<close>,
  size 100 and \<open>orgs[0]\<close>.
\<close>

theorem main_params_mixed_radix:
  "0 \<le> i \<Longrightarrow>
     main_params i = Some (orgs ! nat ((i div 20) mod 2), sizes ! nat ((i div 5) mod 4),
                           margins ! nat (i mod 5), 1)
     \<and> main_params 0 = Some (orgs ! 0, 50, - (1 / 10), 1)
     \<and> main_params 5 = Some (orgs ! 0, 100, - (1 / 10), 1)"
  by (simp add: main_params_def Let_def div_5_div_4 orgs_def sizes_def margins_def reg_norms_def)

theorem main_params_mixed_radix_witness:
  "(0::int) \<le> 27 \<and> main_params 27 = Some (''yeast'', 100, 0, 1)"
  using main_params_mixed_radix [of 27]
  by (simp add: orgs_def sizes_def margins_def)

subsection \<open>Evaluating the validation on concrete inputs\<close>

lemmas eval_defs = validation_mean_rank_def prot_dict_def score_triple_def candidate_score_def
  rankdata_average_def vadd_def vsub_def vnorm_single Let_def upt_rec MyModelCheckpoint_init_def

lemma ppi_checkpointer_eq:
  "ppi_checkpointer =
     \<lparr>out_classes_file = ''cls.pkl'', out_relations_file = ''rel.pkl'',
      cls_list = [''<http://p0>'', ''<http://p1>'', ''<http://p2>''], rel_list = [''<http://r0>''],
      valid_data = [(0, 0, 1), (0, 0, 1)], prot_index = [0, 1, 2], top_c = None,
      best_rank = 100000\<rparr>"
  by (simp add: ppi_checkpointer_def ppi_classes_def MyModelCheckpoint_init_def main_proteins_def
      main_top_def startswith_def)

lemma sign_checkpointer_eq:
  "sign_checkpointer =
     \<lparr>out_classes_file = ''cls.pkl'', out_relations_file = ''rel.pkl'',
      cls_list = [''<http://p0>'', ''<http://p1>''], rel_list = [''<http://r0>''],
      valid_data = [(0, 0, 1)], prot_index = [0, 1], top_c = None, best_rank = 100000\<rparr>"
  by (simp add: sign_checkpointer_def sign_classes_def MyModelCheckpoint_init_def
      main_proteins_def main_top_def startswith_def)

lemma ppi_mean_rank: "validation_mean_rank ppi_checkpointer ppi_model = Inr (5 / 2)"
  by (simp add: eval_defs ppi_checkpointer_eq ppi_model_def)

subsection \<open>The shared matrix of protein centers\<close>





subsection \<open>The sign of the stored radius\<close>

lemma last_negate_radius: "last (negate_radius v) = - last v"
  by (simp add: negate_radius_def)

lemma butlast_negate_radius: "butlast (negate_radius v) = butlast v"
  by (simp add: negate_radius_def)

text \<open>The training losses read the radius through the absolute value.\<close>

lemma loss_negate_radius:
  "loss m (negate_radius c) d = loss m c d" "loss m c (negate_radius d) = loss m c d"
  by (simp_all add: loss_def Let_def last_negate_radius butlast_negate_radius)

lemma map_update_same:
  assumes "f y = f (xs ! i)"
  shows "map f (xs[i := y]) = map f xs"
proof (rule nth_equalityI)
  show "length (map f (xs[i := y])) = length (map f xs)"
    by simp
next
  fix j
  assume "j < length (map f (xs[i := y]))"
  then have "j < length xs"
    by simp
  then show "map f (xs[i := y]) ! j = map f xs ! j"
    using assms by (cases "j = i") simp_all
qed

lemma abs_last_update_negate:
  "map (\<lambda>e. \<bar>last e\<bar>) (embeds[i := negate_radius (embeds ! i)]) = map (\<lambda>e. \<bar>last e\<bar>) embeds"
  by (rule map_update_same) (simp add: last_negate_radius)

lemma butlast_update_negate:
  "map butlast (embeds[i := negate_radius (embeds ! i)]) = map butlast embeds"
  by (rule map_update_same) (simp add: butlast_negate_radius)

text \<open>So does the test evaluation of \<open>evaluate_interactions.py\<close>.\<close>

lemma evaluate_mean_rank_negate_radius:
  "evaluate_mean_rank mg (embeds[i := negate_radius (embeds ! i)]) rembeds pidx test_data
   = evaluate_mean_rank mg embeds rembeds pidx test_data"
  by (simp add: evaluate_mean_rank_def abs_last_update_negate butlast_update_negate)

text \<open>
  C3.  The validation of \<open>on_epoch_end\<close> reads the last column without the absolute
  value, so the sign of a stored radius shows: for two proteins with the same center and
  radius entry 1 the target of the triple \<open>(0, 0, 1)\<close> has rank \<open>3/2\<close>, and rank 2 once the
  radius entry of the target is negated.
\<close>

theorem validation_reads_signed_radius:
  "validation_mean_rank sign_checkpointer sign_model = Inr (3 / 2)
   \<and> validation_mean_rank sign_checkpointer
        (sign_model\<lparr>cls_embeddings :=
           (cls_embeddings sign_model)[1 := negate_radius (cls_embeddings sign_model ! 1)]\<rparr>)
      = Inr 2"
  by (simp add: eval_defs sign_checkpointer_eq sign_model_def negate_radius_def)

subsection \<open>The top concept\<close>

lemma make_top_embed_eq: "make_top_embed n = replicate n 0 @ [1000000]"
proof -
  have "replicate (n + 1) (0::real) = replicate n 0 @ [0]"
    by (simp add: replicate_append_same)
  moreover have "(replicate n 0 @ [0::real])[n := 1000000] = replicate n 0 @ [1000000]"
    using list_update_length [of "replicate n (0::real)" 0 "[]" 1000000] by simp
  ultimately show ?thesis
    by (simp add: make_top_embed_def)
qed

lemma top_embed_ball:
  "radius (make_top_embed n) = 1000000" "center (make_top_embed n) = replicate n 0"
  by (simp_all add: make_top_embed_eq radius_def center_def)

text \<open>For an index other than 0 the row is pinned before the forward pass of the step.\<close>

lemma on_batch_begin_pins:
  "top_c (checkpointer s) = Some t \<Longrightarrow> t \<noteq> 0 \<Longrightarrow> t < length (cls_embeddings (el_model s)) \<Longrightarrow>
     cls_embeddings (el_model (on_batch_begin s)) ! t = top_embed (el_model s)"
  by (simp add: on_batch_begin_def)

text \<open>
  C8.  When the top concept is the first identifier of the training file its class index is
  0, the guard \<open>if self.top:\<close> is false and \<open>on_batch_begin\<close> changes nothing: row 0 keeps
  its value and is not the top vector \<open>[0, 1000000]\<close>.
\<close>

theorem on_batch_begin_skips_index_zero:
  "main_top top_first_classes = Some 0
   \<and> top_c (checkpointer top_first_session) = Some 0
   \<and> on_batch_begin top_first_session = top_first_session
   \<and> cls_embeddings (el_model (on_batch_begin top_first_session)) ! 0 = [1 / 2, 1 / 4]
   \<and> top_embed (el_model top_first_session) = [0, 1000000]"
  by (simp add: main_top_def top_first_classes_def load_nf1_def register_def
      on_batch_begin_def top_first_session_def MyModelCheckpoint_init_def ELModel_init_def
      make_top_embed_def main_proteins_def startswith_def)

subsection \<open>The end of an epoch\<close>

lemma fit_generator_stopped:
  "stop_training s \<Longrightarrow> fit_generator opt logged s epochs epoch = Inr s"
  by (cases epochs) simp_all

text \<open>
  C7 (as amended).  When the loss at the end of an epoch is NaN, \<open>on_epoch_end\<close> prints
  its message, sets \<open>stop_training\<close> and returns: nothing is scored, no file is written,
  the callback and the model are as before, and the training loop runs no further step.
\<close>

theorem on_epoch_end_nan_halts:
  "\<exists>s'. on_epoch_end s epoch NaN = Inr s'
      \<and> stop_training s'
      \<and> stdout s' = stdout s @ [NAN_loss_stopping_training]
      \<and> pickles s' = pickles s
      \<and> checkpointer s' = checkpointer s
      \<and> el_model s' = el_model s
      \<and> steps_run s' = steps_run s
      \<and> (\<forall>epochs e. fit_generator opt logged s' epochs e = Inr s')"
  by (simp add: on_epoch_end_def fit_generator_stopped)

text \<open>
  An infinite loss is not NaN: with the loss \<open>+inf\<close> the callback does not stop the
  training, scores the validation triples and writes both tables.
\<close>

theorem on_epoch_end_infinite_loss_counterexample:
  "map_sum id stop_training (on_epoch_end ppi_session 0 PosInf) = Inr False
   \<and> map_sum id stdout (on_epoch_end ppi_session 0 PosInf)
       = Inr [Validation 1 (5 / 2), Saving_embeddings 1 (5 / 2)]
   \<and> map_sum id pickles (on_epoch_end ppi_session 0 PosInf)
       = Inr [(''cls.pkl'', ([''<http://p0>'', ''<http://p1>'', ''<http://p2>''],
                             [[0, 1], [1 / 2, 0], [1, 0]])),
              (''rel.pkl'', ([''<http://r0>''], [[1 / 2]]))]
   \<and> pickles ppi_session = []"
proof -
  have "validation_mean_rank (checkpointer ppi_session) (el_model ppi_session) = Inr (5 / 2)"
    by (simp add: ppi_session_def ppi_mean_rank)
  then show ?thesis
    by (simp add: on_epoch_end_def Let_def)
      (simp add: ppi_session_def ppi_checkpointer_eq ppi_model_def)
qed

subsection \<open>Persisting on improvement\<close>

lemma prot_dict_defined:
  assumes "c \<in> set pidx"
  shows "\<exists>k. prot_dict pidx c = Some k"
proof -
  have "map fst (zip pidx [0..<length pidx]) = pidx"
    by simp
  then have "fst ` set (zip pidx [0..<length pidx]) = set pidx"
    by (metis set_map)
  with assms have "c \<in> fst ` set (rev (zip pidx [0..<length pidx]))"
    by simp
  then have "map_of (rev (zip pidx [0..<length pidx])) c \<noteq> None"
    by (simp only: map_of_eq_None_iff not_not)
  then show ?thesis
    by (simp add: prot_dict_def)
qed

text \<open>The loop returns when both ends of every triple are proteins.\<close>

lemma validation_loop_total:
  "list_all (\<lambda>(c, r, d). pd c \<noteq> None \<and> pd d \<noteq> None) vd \<Longrightarrow>
     \<exists>P' total. validation_loop mg rels prot_rs pd P acc vd = Inr (P', total)"
proof (induction vd arbitrary: P acc)
  case Nil
  then show ?case by simp
next
  case (Cons t vd)
  obtain c r d where t: "t = (c, r, d)"
    by (cases t) auto
  from Cons.prems t obtain c' d' where cd: "pd c = Some c'" "pd d = Some d'"
    by auto
  from Cons.prems have "list_all (\<lambda>(c, r, d). pd c \<noteq> None \<and> pd d \<noteq> None) vd"
    by simp
  from Cons.IH [OF this] t cd show ?case
    by (simp add: split_beta)
qed

lemma validation_mean_rank_total:
  assumes "list_all (\<lambda>(c, r, d). c \<in> set (prot_index self) \<and> d \<in> set (prot_index self))
             (valid_data self)"
  shows "\<exists>mean_rank. validation_mean_rank self m = Inr mean_rank"
proof -
  from assms have "list_all (\<lambda>(c, r, d). prot_dict (prot_index self) c \<noteq> None
        \<and> prot_dict (prot_index self) d \<noteq> None) (valid_data self)"
    by (auto simp: list_all_iff prot_dict_defined)
  from validation_loop_total [OF this]
  show ?thesis
    unfolding validation_mean_rank_def Let_def
    by (metis (no_types, lifting) old.sum.simps(6) case_prod_conv)
qed

lemma on_epoch_end_improved:
  assumes "valid_data (checkpointer s) \<noteq> []" "\<not> math_isnan l"
    and "validation_mean_rank (checkpointer s) (el_model s) = Inr mean_rank"
    and "mean_rank < best_rank (checkpointer s)"
  shows "on_epoch_end s epoch l =
     Inr (s\<lparr>checkpointer := (checkpointer s)\<lparr>best_rank := mean_rank\<rparr>,
            stdout := stdout s @ [Validation (epoch + 1) mean_rank,
                                  Saving_embeddings (epoch + 1) mean_rank],
            pickles := pickles s
              @ [(out_classes_file (checkpointer s),
                    (cls_list (checkpointer s), cls_embeddings (el_model s))),
                 (out_relations_file (checkpointer s),
                    (rel_list (checkpointer s), rel_embeddings (el_model s)))]\<rparr>)"
  using assms by (simp add: on_epoch_end_def Let_def)

lemma on_epoch_end_not_improved:
  assumes "valid_data (checkpointer s) \<noteq> []" "\<not> math_isnan l"
    and "validation_mean_rank (checkpointer s) (el_model s) = Inr mean_rank"
    and "\<not> mean_rank < best_rank (checkpointer s)"
  shows "on_epoch_end s epoch l = Inr (s\<lparr>stdout := stdout s @ [Validation (epoch + 1) mean_rank]\<rparr>)"
  using assms by (simp add: on_epoch_end_def Let_def)

text \<open>
  C9.  \<open>best_rank\<close> starts at 100000.  For a non-empty validation set whose triples join
  proteins and a finite loss, \<open>on_epoch_end\<close> returns, and it writes files exactly when the
  mean rank is below \<open>best_rank\<close>: then it writes the whole class table and the whole
  relation table and sets \<open>best_rank\<close> to the mean rank; otherwise it writes nothing and
  \<open>best_rank\<close> stays.
\<close>

theorem on_epoch_end_persists_iff_improved:
  assumes ne: "valid_data (checkpointer s) \<noteq> []"
    and wf: "list_all (\<lambda>(c, r, d). c \<in> set (prot_index (checkpointer s))
                                  \<and> d \<in> set (prot_index (checkpointer s)))
               (valid_data (checkpointer s))"
  shows "best_rank (MyModelCheckpoint_init ocf orf cl rl vd proteins tp) = 100000
    \<and> (\<exists>mean_rank s'.
          validation_mean_rank (checkpointer s) (el_model s) = Inr mean_rank
        \<and> on_epoch_end s epoch (Finite x) = Inr s'
        \<and> (pickles s' \<noteq> pickles s \<longleftrightarrow> mean_rank < best_rank (checkpointer s))
        \<and> (mean_rank < best_rank (checkpointer s) \<longrightarrow>
             pickles s' = pickles s
               @ [(out_classes_file (checkpointer s),
                     (cls_list (checkpointer s), cls_embeddings (el_model s))),
                  (out_relations_file (checkpointer s),
                     (rel_list (checkpointer s), rel_embeddings (el_model s)))]
             \<and> best_rank (checkpointer s') = mean_rank)
        \<and> (\<not> mean_rank < best_rank (checkpointer s) \<longrightarrow>
             pickles s' = pickles s \<and> best_rank (checkpointer s') = best_rank (checkpointer s)))"
proof
  show "best_rank (MyModelCheckpoint_init ocf orf cl rl vd proteins tp) = 100000"
    by (simp add: MyModelCheckpoint_init_def)
next
  from validation_mean_rank_total [OF wf]
  obtain mean_rank where mr: "validation_mean_rank (checkpointer s) (el_model s) = Inr mean_rank"
    by blast
  have fin: "\<not> math_isnan (Finite x)"
    by simp
  show "\<exists>mean_rank s'.
          validation_mean_rank (checkpointer s) (el_model s) = Inr mean_rank
        \<and> on_epoch_end s epoch (Finite x) = Inr s'
        \<and> (pickles s' \<noteq> pickles s \<longleftrightarrow> mean_rank < best_rank (checkpointer s))
        \<and> (mean_rank < best_rank (checkpointer s) \<longrightarrow>
             pickles s' = pickles s
               @ [(out_classes_file (checkpointer s),
                     (cls_list (checkpointer s), cls_embeddings (el_model s))),
                  (out_relations_file (checkpointer s),
                     (rel_list (checkpointer s), rel_embeddings (el_model s)))]
             \<and> best_rank (checkpointer s') = mean_rank)
        \<and> (\<not> mean_rank < best_rank (checkpointer s) \<longrightarrow>
             pickles s' = pickles s \<and> best_rank (checkpointer s') = best_rank (checkpointer s))"
  proof (cases "mean_rank < best_rank (checkpointer s)")
    case True
    from on_epoch_end_improved [OF ne fin mr True, of epoch] mr True show ?thesis
      by simp
  next
    case False
    from on_epoch_end_not_improved [OF ne fin mr False, of epoch] mr False show ?thesis
      by simp
  qed
qed

theorem on_epoch_end_persists_iff_improved_witness:
  "valid_data (checkpointer ppi_session) \<noteq> []
   \<and> list_all (\<lambda>(c, r, d). c \<in> set (prot_index (checkpointer ppi_session))
                           \<and> d \<in> set (prot_index (checkpointer ppi_session)))
        (valid_data (checkpointer ppi_session))
   \<and> validation_mean_rank (checkpointer ppi_session) (el_model ppi_session) = Inr (5 / 2)
   \<and> map_sum id pickles (on_epoch_end ppi_session 0 (Finite 1))
       = Inr [(''cls.pkl'', ([''<http://p0>'', ''<http://p1>'', ''<http://p2>''],
                             [[0, 1], [1 / 2, 0], [1, 0]])),
              (''rel.pkl'', ([''<http://r0>''], [[1 / 2]]))]
   \<and> map_sum id (\<lambda>s. best_rank (checkpointer s)) (on_epoch_end ppi_session 0 (Finite 1))
       = Inr (5 / 2)"
proof -
  have ne: "valid_data (checkpointer ppi_session) \<noteq> []"
    by (simp add: ppi_session_def ppi_checkpointer_eq)
  have wf: "list_all (\<lambda>(c, r, d). c \<in> set (prot_index (checkpointer ppi_session))
                           \<and> d \<in> set (prot_index (checkpointer ppi_session)))
        (valid_data (checkpointer ppi_session))"
    by (simp add: ppi_session_def ppi_checkpointer_eq)
  have mr: "validation_mean_rank (checkpointer ppi_session) (el_model ppi_session) = Inr (5 / 2)"
    by (simp add: ppi_session_def ppi_mean_rank)
  from on_epoch_end_persists_iff_improved [OF ne wf, of _ _ _ _ _ _ _ 0 1]
  obtain mean_rank s' where
    a: "validation_mean_rank (checkpointer ppi_session) (el_model ppi_session) = Inr mean_rank"
    and b: "on_epoch_end ppi_session 0 (Finite 1) = Inr s'"
    and c: "mean_rank < best_rank (checkpointer ppi_session) \<longrightarrow>
             pickles s' = pickles ppi_session
               @ [(out_classes_file (checkpointer ppi_session),
                     (cls_list (checkpointer ppi_session), cls_embeddings (el_model ppi_session))),
                  (out_relations_file (checkpointer ppi_session),
                     (rel_list (checkpointer ppi_session), rel_embeddings (el_model ppi_session)))]
             \<and> best_rank (checkpointer s') = mean_rank"
    by blast
  from a mr have m: "mean_rank = 5 / 2"
    by simp
  have "mean_rank < best_rank (checkpointer ppi_session)"
    by (simp add: m ppi_session_def ppi_checkpointer_eq)
  with c m have "pickles s' = [(''cls.pkl'', ([''<http://p0>'', ''<http://p1>'', ''<http://p2>''],
                             [[0, 1], [1 / 2, 0], [1, 0]])),
              (''rel.pkl'', ([''<http://r0>''], [[1 / 2]]))]"
    and "best_rank (checkpointer s') = 5 / 2"
    by (simp_all add: ppi_session_def ppi_checkpointer_eq ppi_model_def)
  with ne wf mr b show ?thesis
    by simp
qed

end
